theory Spec2Isabelle
  imports Main "HOL-Library.Word" "HOL-Library.AList"
begin

unbundle bit_operations_syntax

section \<open>Values, documents and the document store\<close>

text \<open>
  The values that occur in the documents and responses of \<^verbatim>\<open>main.py\<close>. A Python
  \<^verbatim>\<open>str\<close> that is only stored, compared and passed on is carried as the list of its
  UTF-8 bytes (the password, which the program encodes, is carried as its code points,
  see below), a \<^verbatim>\<open>float\<close> by its \<^verbatim>\<open>repr\<close> text (\<^verbatim>\<open>299.99\<close>), a \<^verbatim>\<open>datetime\<close> by its
  text, and a driver-generated \<^verbatim>\<open>ObjectId\<close> by its 96-bit number. No operation of the
  program computes with a float or a datetime; they are only stored and passed on.
\<close>

datatype val = VNone | VBool bool | VStr string | VFloat string | VOid nat | VDatetime string

text \<open>A Python \<^verbatim>\<open>dict\<close> with string keys, in insertion order.\<close>

type_synonym doc = "(string \<times> val) list"

text \<open>\<^verbatim>\<open>d.get(k)\<close> and \<^verbatim>\<open>d.get(k, default)\<close>.\<close>

definition dict_get_default :: "doc \<Rightarrow> string \<Rightarrow> val \<Rightarrow> val" where
  "dict_get_default d k dflt = (case map_of d k of None \<Rightarrow> dflt | Some v \<Rightarrow> v)"

definition dict_get :: "doc \<Rightarrow> string \<Rightarrow> val" where
  "dict_get d k = dict_get_default d k VNone"

text \<open>\<^verbatim>\<open>str(v)\<close>; an \<^verbatim>\<open>ObjectId\<close> prints as 24 lower-case hexadecimal digits.\<close>

definition hex_digit :: "nat \<Rightarrow> char" where
  "hex_digit n = ''0123456789abcdef'' ! (n mod 16)"

fun hex_nat :: "nat \<Rightarrow> nat \<Rightarrow> string" where
  "hex_nat 0 n = []"
| "hex_nat (Suc k) n = hex_nat k (n div 16) @ [hex_digit n]"

fun str :: "val \<Rightarrow> string" where
  "str VNone = ''None''"
| "str (VBool b) = (if b then ''True'' else ''False'')"
| "str (VStr s) = s"
| "str (VFloat r) = r"
| "str (VOid n) = hex_nat 24 n"
| "str (VDatetime t) = t"

text \<open>
  Modelled from the spec: the \<^verbatim>\<open>database\<close> module, from which every endpoint imports
  the document store \<^verbatim>\<open>db\<close>, is not part of \<^verbatim>\<open>main.py\<close>. The spec treats it as an
  external document store with three persisted collections, queried with an equality
  filter and a limit and written by inserts. A store holds, for every collection name,
  the list of its documents in insertion order, and the counter from which fresh
  \<^verbatim>\<open>ObjectId\<close>s are drawn. \<^verbatim>\<open>find(q)\<close> returns, in that order, the documents in which
  every field of the query \<^verbatim>\<open>q\<close> is present with an equal value (the queries of this
  program hold strings only); \<^verbatim>\<open>find_one(q)\<close> returns the first of them or \<^verbatim>\<open>None\<close>;
  \<^verbatim>\<open>insert_one(d)\<close> gives \<open>d\<close> a fresh \<^verbatim>\<open>_id\<close> unless it has one, appends it to the
  collection and returns the identifier; \<^verbatim>\<open>limit(n)\<close> keeps the first \<open>n\<close> documents
  of a cursor. The spec is silent on a limit that is not positive; there the model
  follows the pymongo driver, for which \<open>n = 0\<close> means no limit and a negative
  \<open>n\<close> asks for \<open>|n|\<close> documents.
\<close>

record store =
  colls :: "string \<Rightarrow> doc list"
  next_oid :: nat

definition matches :: "doc \<Rightarrow> doc \<Rightarrow> bool" where
  "matches q d = list_all (\<lambda>(k, v). map_of d k = Some v) q"

definition find_docs :: "doc \<Rightarrow> doc list \<Rightarrow> doc list" where
  "find_docs q ds = filter (matches q) ds"

definition find_one :: "doc \<Rightarrow> doc list \<Rightarrow> doc option" where
  "find_one q ds = (case find_docs q ds of [] \<Rightarrow> None | d # _ \<Rightarrow> Some d)"

definition limit_cursor :: "int \<Rightarrow> doc list \<Rightarrow> doc list" where
  "limit_cursor n ds = (if n = 0 then ds else take (nat \<bar>n\<bar>) ds)"

definition insert_one :: "string \<Rightarrow> doc \<Rightarrow> store \<Rightarrow> val \<times> store" where
  "insert_one c d s =
     (let d' = (if map_of d ''_id'' = None then (''_id'', VOid (next_oid s)) # d else d)
      in (dict_get d' ''_id'',
          s\<lparr>colls := (colls s)(c := colls s c @ [d']), next_oid := Suc (next_oid s)\<rparr>))"

text \<open>
  What \<^verbatim>\<open>from database import db\<close> does at the head of every endpoint: it raises, and
  the endpoint falls back to its demo branch, or it yields \<^verbatim>\<open>db\<close>, which is a connected
  database or \<^verbatim>\<open>None\<close> (the \<^verbatim>\<open>/test\<close> endpoint checks \<^verbatim>\<open>db is not None\<close>). The
  world of a request is this, together with the clock that \<^verbatim>\<open>datetime.now\<close> reads:
  \<open>now w i\<close> is the text of the \<open>i\<close>-th reading and \<open>reads w\<close> counts the readings
  made so far.
\<close>

datatype db_module = ImportFails | Imported "store option"

record world =
  database :: db_module
  now :: "nat \<Rightarrow> string"
  reads :: nat

text \<open>
  An endpoint ends with a response, with an \<^verbatim>\<open>HTTPException\<close> (status code and
  detail), or with an exception that nothing catches: the \<^verbatim>\<open>TypeError\<close> of
  \<^verbatim>\<open>db["..."]\<close> when \<^verbatim>\<open>db\<close> is \<^verbatim>\<open>None\<close>, and the \<^verbatim>\<open>UnicodeEncodeError\<close> of
  \<^verbatim>\<open>pw.encode()\<close> in \<^verbatim>\<open>hash_password\<close>.
\<close>

datatype error = HTTPException nat string | TypeError | UnicodeEncodeError

section \<open>Categories\<close>

definition static_categories :: "doc list" where
  "static_categories =
    [[(''name'', VStr ''Engine''), (''slug'', VStr ''engine''), (''description'', VStr ''Performance engine parts'')],
     [(''name'', VStr ''Braking''), (''slug'', VStr ''braking''), (''description'', VStr ''Pads, rotors, kits'')],
     [(''name'', VStr ''Suspension''), (''slug'', VStr ''suspension''), (''description'', VStr ''Coilovers, arms, bushings'')],
     [(''name'', VStr ''Electronics''), (''slug'', VStr ''electronics''), (''description'', VStr ''Sensors, ECUs, harnesses'')],
     [(''name'', VStr ''LED Lighting''), (''slug'', VStr ''lighting''), (''description'', VStr ''Headlights, strips, kits'')],
     [(''name'', VStr ''Bodywork''), (''slug'', VStr ''bodywork''), (''description'', VStr ''Aero, trims, panels'')]]"

definition seed :: "doc list" where
  "seed =
    [[(''name'', VStr ''Engine''), (''slug'', VStr ''engine''), (''description'', VStr ''Performance engine parts''), (''icon'', VStr ''Cog'')],
     [(''name'', VStr ''Braking''), (''slug'', VStr ''braking''), (''description'', VStr ''Pads, rotors, kits''), (''icon'', VStr ''Disc3'')],
     [(''name'', VStr ''Suspension''), (''slug'', VStr ''suspension''), (''description'', VStr ''Coilovers, arms, bushings''), (''icon'', VStr ''Wrench'')],
     [(''name'', VStr ''Electronics''), (''slug'', VStr ''electronics''), (''description'', VStr ''Sensors, ECUs, harnesses''), (''icon'', VStr ''Cpu'')],
     [(''name'', VStr ''LED Lighting''), (''slug'', VStr ''lighting''), (''description'', VStr ''Headlights, strips, kits''), (''icon'', VStr ''Lightbulb'')],
     [(''name'', VStr ''Bodywork''), (''slug'', VStr ''bodywork''), (''description'', VStr ''Aero, trims, panels''), (''icon'', VStr ''Zap'')]]"

text \<open>
  The seeding loop \<^verbatim>\<open>for s in seed: db["category"].insert_one({**s, "created_at": now(),
  "updated_at": now()})\<close>: two readings of the clock for every record, then the insert.
\<close>

fun insert_seed :: "(nat \<Rightarrow> string) \<Rightarrow> doc list \<Rightarrow> store \<times> nat \<Rightarrow> store \<times> nat" where
  "insert_seed clk [] (s, r) = (s, r)"
| "insert_seed clk (x # xs) (s, r) =
     insert_seed clk xs
       (snd (insert_one ''category''
               (AList.update ''updated_at'' (VDatetime (clk (Suc r)))
                 (AList.update ''created_at'' (VDatetime (clk r)) x)) s),
        Suc (Suc r))"

definition category_out :: "doc \<Rightarrow> doc" where
  "category_out c =
     [(''name'', dict_get c ''name''), (''slug'', dict_get c ''slug''),
      (''description'', dict_get c ''description''), (''icon'', dict_get c ''icon'')]"

definition get_categories :: "world \<Rightarrow> (error + doc list) \<times> world" where
  "get_categories w =
     (case database w of
        ImportFails \<Rightarrow> (Inr static_categories, w)
      | Imported None \<Rightarrow> (Inl TypeError, w)
      | Imported (Some s) \<Rightarrow>
          (let existing = find_docs [] (colls s ''category'')
           in if existing = [] then
                (case insert_seed (now w) seed (s, reads w) of (s', r') \<Rightarrow>
                   (Inr (map category_out (find_docs [] (colls s' ''category''))),
                    w\<lparr>database := Imported (Some s'), reads := r'\<rparr>))
              else (Inr (map category_out existing), w)))"

section \<open>Products\<close>

definition demo :: "doc list" where
  "demo =
    [[(''_id'', VStr ''1''), (''title'', VStr ''Carbon Intake Kit''),
      (''description'', VStr ''High-flow carbon fiber intake''), (''price'', VFloat ''299.99''),
      (''category'', VStr ''engine''), (''in_stock'', VBool True), (''image_url'', VNone)],
     [(''_id'', VStr ''2''), (''title'', VStr ''Drilled Brake Rotors''),
      (''description'', VStr ''Performance rotor pair''), (''price'', VFloat ''189.5''),
      (''category'', VStr ''braking''), (''in_stock'', VBool True), (''image_url'', VNone)]]"

text \<open>The slice \<^verbatim>\<open>xs[:n]\<close>: a negative \<open>n\<close> counts from the end.\<close>

definition slice_to :: "int \<Rightarrow> 'a list \<Rightarrow> 'a list" where
  "slice_to n xs = (if 0 \<le> n then take (nat n) xs else take (nat (int (length xs) + n)) xs)"

definition product_out_demo :: "doc \<Rightarrow> doc" where
  "product_out_demo d =
     [(''id'', dict_get d ''_id''), (''title'', dict_get d ''title''),
      (''description'', dict_get d ''description''), (''price'', dict_get d ''price''),
      (''category'', dict_get d ''category''),
      (''in_stock'', dict_get_default d ''in_stock'' (VBool True)),
      (''image_url'', dict_get d ''image_url'')]"

definition product_out :: "doc \<Rightarrow> doc" where
  "product_out d =
     [(''id'', VStr (str (dict_get d ''_id''))), (''title'', dict_get d ''title''),
      (''description'', dict_get d ''description''), (''price'', dict_get d ''price''),
      (''category'', dict_get d ''category''),
      (''in_stock'', dict_get_default d ''in_stock'' (VBool True)),
      (''image_url'', dict_get d ''image_url'')]"

text \<open>
  \<^verbatim>\<open>if category:\<close> tests an optional string: \<^verbatim>\<open>None\<close> and the empty string are
  both false, and then no filter is applied.
\<close>

definition list_products :: "string option \<Rightarrow> int \<Rightarrow> world \<Rightarrow> error + doc list" where
  "list_products category limit w =
     (case database w of
        ImportFails \<Rightarrow>
          (let demo' = (case category of
                          None \<Rightarrow> demo
                        | Some c \<Rightarrow>
                            if c \<noteq> [] then filter (\<lambda>d. dict_get d ''category'' = VStr c) demo
                            else demo)
           in Inr (map product_out_demo (slice_to limit demo')))
      | Imported None \<Rightarrow> Inl TypeError
      | Imported (Some s) \<Rightarrow>
          (let q = (case category of
                      None \<Rightarrow> []
                    | Some c \<Rightarrow> if c \<noteq> [] then [(''category'', VStr c)] else []);
               docs = limit_cursor limit (find_docs q (colls s ''product''))
           in Inr (map product_out docs)))"

section \<open>Passwords\<close>

text \<open>
  \<^verbatim>\<open>hash_password(pw) = sha256(pw.encode()).hexdigest()\<close>. The password is the one
  string that the program encodes itself, so it is carried as Python has it: a list of
  Unicode code points. \<^verbatim>\<open>pw.encode()\<close> is its UTF-8 encoding, which raises
  \<^verbatim>\<open>UnicodeEncodeError\<close> at a surrogate code point (D800 to DFFF); a JSON body can
  carry one (\<^verbatim>\<open>"\ud800"\<close>), and the request models do not constrain the password.
  \<^verbatim>\<open>hashlib.sha256\<close> is the SHA-256 of FIPS 180-4: the message is padded to a multiple
  of 64 bytes, every block is expanded to 64 words and run through 64 rounds of the
  compression function, and the eight 32-bit words of the final state are printed in
  hexadecimal. The round constants \<open>K\<close> and the initial state \<open>H0\<close> are written in
  decimal.
\<close>

type_synonym u32 = "32 word"
type_synonym byte = "8 word"

type_synonym hstate = "u32 \<times> u32 \<times> u32 \<times> u32 \<times> u32 \<times> u32 \<times> u32 \<times> u32"

definition rotr :: "nat \<Rightarrow> u32 \<Rightarrow> u32" where
  "rotr n x = drop_bit n x OR push_bit (32 - n) x"

definition K :: "u32 list" where
  "K = [1116352408, 1899447441, 3049323471, 3921009573, 961987163, 1508970993,
        2453635748, 2870763221, 3624381080, 310598401, 607225278, 1426881987,
        1925078388, 2162078206, 2614888103, 3248222580, 3835390401, 4022224774,
        264347078, 604807628, 770255983, 1249150122, 1555081692, 1996064986,
        2554220882, 2821834349, 2952996808, 3210313671, 3336571891, 3584528711,
        113926993, 338241895, 666307205, 773529912, 1294757372, 1396182291,
        1695183700, 1986661051, 2177026350, 2456956037, 2730485921, 2820302411,
        3259730800, 3345764771, 3516065817, 3600352804, 4094571909, 275423344,
        430227734, 506948616, 659060556, 883997877, 958139571, 1322822218,
        1537002063, 1747873779, 1955562222, 2024104815, 2227730452, 2361852424,
        2428436474, 2756734187, 3204031479, 3329325298]"

definition H0 :: hstate where
  "H0 = (1779033703, 3144134277, 1013904242, 2773480762, 1359893119, 2600822924, 528734635, 1541459225)"

fun be_bytes :: "nat \<Rightarrow> nat \<Rightarrow> byte list" where
  "be_bytes 0 n = []"
| "be_bytes (Suc k) n = be_bytes k (n div 256) @ [of_nat (n mod 256)]"

definition pad :: "byte list \<Rightarrow> byte list" where
  "pad m = m @ [0x80] @ replicate ((119 - length m mod 64) mod 64) 0 @ be_bytes 8 (8 * length m)"

fun be_words :: "byte list \<Rightarrow> u32 list" where
  "be_words (a # b # c # d # bs) =
     (push_bit 24 (ucast a) OR push_bit 16 (ucast b) OR push_bit 8 (ucast c) OR ucast d) # be_words bs"
| "be_words _ = []"

fun schedule :: "nat \<Rightarrow> u32 list \<Rightarrow> u32 list" where
  "schedule 0 w = w"
| "schedule (Suc n) w =
     (let j = length w;
          s0 = rotr 7 (w ! (j - 15)) XOR rotr 18 (w ! (j - 15)) XOR drop_bit 3 (w ! (j - 15));
          s1 = rotr 17 (w ! (j - 2)) XOR rotr 19 (w ! (j - 2)) XOR drop_bit 10 (w ! (j - 2))
      in schedule n (w @ [w ! (j - 16) + s0 + w ! (j - 7) + s1]))"

definition sha_round :: "hstate \<Rightarrow> u32 \<times> u32 \<Rightarrow> hstate" where
  "sha_round v kw = (case v of (a, b, c, d, e, f, g, h) \<Rightarrow> case kw of (k, w) \<Rightarrow>
     (let S1 = rotr 6 e XOR rotr 11 e XOR rotr 25 e;
          ch = (e AND f) XOR (NOT e AND g);
          t1 = h + S1 + ch + k + w;
          S0 = rotr 2 a XOR rotr 13 a XOR rotr 22 a;
          maj = (a AND b) XOR (a AND c) XOR (b AND c);
          t2 = S0 + maj
      in (t1 + t2, a, b, c, d + t1, e, f, g)))"

definition add_state :: "hstate \<Rightarrow> hstate \<Rightarrow> hstate" where
  "add_state x y = (case x of (a, b, c, d, e, f, g, h) \<Rightarrow> case y of (a', b', c', d', e', f', g', h') \<Rightarrow>
     (a + a', b + b', c + c', d + d', e + e', f + f', g + g', h + h'))"

definition compress :: "hstate \<Rightarrow> byte list \<Rightarrow> hstate" where
  "compress h blk = add_state h (foldl sha_round h (zip K (schedule 48 (be_words blk))))"

fun blocks :: "nat \<Rightarrow> byte list \<Rightarrow> byte list list" where
  "blocks 0 bs = []"
| "blocks (Suc n) bs = take 64 bs # blocks n (drop 64 bs)"

definition sha256 :: "byte list \<Rightarrow> hstate" where
  "sha256 m = (let p = pad m in foldl compress H0 (blocks (length p div 64) p))"

definition hex32 :: "u32 \<Rightarrow> string" where
  "hex32 w = map (\<lambda>i. hex_digit (unat (drop_bit (4 * i) w AND 15))) (rev [0..<8])"

definition hexdigest :: "hstate \<Rightarrow> string" where
  "hexdigest v = (case v of (a, b, c, d, e, f, g, h) \<Rightarrow> concat (map hex32 [a, b, c, d, e, f, g, h]))"

type_synonym pystr = "nat list"

text \<open>
  The UTF-8 encoding of one code point. No Python string holds a code point above
  10FFFF; the last case only makes the function total.
\<close>

definition utf8 :: "nat \<Rightarrow> error + byte list" where
  "utf8 c =
     (if c < 0x80 then Inr [of_nat c]
      else if c < 0x800 then Inr [of_nat (0xC0 + c div 64), of_nat (0x80 + c mod 64)]
      else if 0xD800 \<le> c \<and> c \<le> 0xDFFF then Inl UnicodeEncodeError
      else if c < 0x10000 then
        Inr [of_nat (0xE0 + c div 4096), of_nat (0x80 + c div 64 mod 64), of_nat (0x80 + c mod 64)]
      else if c < 0x110000 then
        Inr [of_nat (0xF0 + c div 262144), of_nat (0x80 + c div 4096 mod 64),
             of_nat (0x80 + c div 64 mod 64), of_nat (0x80 + c mod 64)]
      else Inl UnicodeEncodeError)"

fun encode :: "pystr \<Rightarrow> error + byte list" where
  "encode [] = Inr []"
| "encode (c # cs) =
     (case utf8 c of
        Inl e \<Rightarrow> Inl e
      | Inr bs \<Rightarrow> (case encode cs of Inl e \<Rightarrow> Inl e | Inr rest \<Rightarrow> Inr (bs @ rest)))"

definition hash_password :: "pystr \<Rightarrow> error + string" where
  "hash_password pw =
     (case encode pw of Inl e \<Rightarrow> Inl e | Inr bs \<Rightarrow> Inr (hexdigest (sha256 bs)))"

section \<open>Sign-up and login\<close>

text \<open>
  The request bodies \<^verbatim>\<open>LoginRequest\<close> (email, password) and \<^verbatim>\<open>SignUpRequest\<close>
  (name, email, password), after validation; the password is any Python string. A
  response is a dictionary whose values are plain values or, for the \<^verbatim>\<open>user\<close> entry
  of the demo sign-up, a dictionary.
\<close>

record LoginRequest =
  email :: string
  password :: pystr

record SignUpRequest = LoginRequest +
  name :: string

datatype json = Atom val | Obj doc

type_synonym response = "(string \<times> json) list"

text \<open>
  \<^verbatim>\<open>if existing:\<close> and \<^verbatim>\<open>if not u:\<close> test the result of \<^verbatim>\<open>find_one\<close>: \<^verbatim>\<open>None\<close> and
  the empty dictionary are both false. \<^verbatim>\<open>signup\<close> calls \<^verbatim>\<open>hash_password\<close> while it
  builds the user document, after the duplicate check and before the clock is read and
  the document inserted; \<^verbatim>\<open>login\<close> calls it once a user is found. When it raises,
  the endpoint ends there.
\<close>

definition signup :: "SignUpRequest \<Rightarrow> world \<Rightarrow> (error + response) \<times> world" where
  "signup payload w =
     (case database w of
        ImportFails \<Rightarrow>
          (Inr [(''ok'', Atom (VBool True)), (''message'', Atom (VStr ''Signed up (demo mode)'')),
                (''user'', Obj [(''name'', VStr (name payload)), (''email'', VStr (email payload))])],
           w)
      | Imported None \<Rightarrow> (Inl TypeError, w)
      | Imported (Some s) \<Rightarrow>
          (let existing = find_one [(''email'', VStr (email payload))] (colls s ''user'')
           in if existing \<noteq> None \<and> existing \<noteq> Some []
              then (Inl (HTTPException 400 ''Email already registered''), w)
              else
                (case hash_password (password payload) of
                   Inl e \<Rightarrow> (Inl e, w)
                 | Inr h \<Rightarrow>
                     (let doc = [(''name'', VStr (name payload)),
                                 (''email'', VStr (email payload)),
                                 (''password_hash'', VStr h),
                                 (''is_active'', VBool True),
                                 (''created_at'', VDatetime (now w (reads w))),
                                 (''updated_at'', VDatetime (now w (Suc (reads w))))]
                      in case insert_one ''user'' doc s of (inserted_id, s') \<Rightarrow>
                           (Inr [(''ok'', Atom (VBool True)),
                                 (''user_id'', Atom (VStr (str inserted_id)))],
                            w\<lparr>database := Imported (Some s'), reads := Suc (Suc (reads w))\<rparr>)))))"

definition login :: "LoginRequest \<Rightarrow> world \<Rightarrow> (error + response) \<times> world" where
  "login payload w =
     (case database w of
        ImportFails \<Rightarrow>
          (Inr [(''ok'', Atom (VBool True)), (''message'', Atom (VStr ''Logged in (demo mode)'')),
                (''email'', Atom (VStr (email payload)))],
           w)
      | Imported None \<Rightarrow> (Inl TypeError, w)
      | Imported (Some s) \<Rightarrow>
          (case find_one [(''email'', VStr (email payload))] (colls s ''user'') of
             None \<Rightarrow> (Inl (HTTPException 401 ''Invalid credentials''), w)
           | Some u \<Rightarrow>
               if u = [] then (Inl (HTTPException 401 ''Invalid credentials''), w)
               else
                 (case hash_password (password payload) of
                    Inl e \<Rightarrow> (Inl e, w)
                  | Inr h \<Rightarrow>
                      if dict_get u ''password_hash'' \<noteq> VStr h
                      then (Inl (HTTPException 401 ''Invalid credentials''), w)
                      else (Inr [(''ok'', Atom (VBool True)),
                                 (''user_id'', Atom (VStr (str (dict_get u ''_id'')))),
                                 (''name'', Atom (dict_get u ''name''))],
                            w))))"

section \<open>Records that match a category\<close>

text \<open>
  The records of a list whose category field equals the requested category; with no
  category requested, all of them.
\<close>

definition matching :: "string option \<Rightarrow> doc list \<Rightarrow> doc list" where
  "matching c ds =
     (case c of None \<Rightarrow> ds | Some cs \<Rightarrow> filter (\<lambda>d. dict_get d ''category'' = VStr cs) ds)"

section \<open>Example worlds\<close>

text \<open>
  A world without a database module, a world whose database is empty, and a world with
  one category, two products (the first without an \<^verbatim>\<open>in_stock\<close> field) and two users
  (Ann, with the digest of the password \<^verbatim>\<open>abc\<close>, and Bob, with a stored hash that is no
  digest); a world in which two user records share Ann's email, the older one with a
  stored hash that is no digest; and requests, some with the password \<^verbatim>\<open>abc\<close> and
  some with a password that is one lone surrogate.
\<close>

definition clock0 :: "nat \<Rightarrow> string" where
  "clock0 i = ''2024-01-01 00:00:0'' @ [hex_digit i]"

definition demo_world :: world where
  "demo_world = \<lparr>database = ImportFails, now = clock0, reads = 0\<rparr>"

definition empty_store :: store where
  "empty_store = \<lparr>colls = (\<lambda>c. []), next_oid = 1\<rparr>"

definition empty_world :: world where
  "empty_world = \<lparr>database = Imported (Some empty_store), now = clock0, reads = 0\<rparr>"

definition shop_store :: store where
  "shop_store =
     \<lparr>colls = (\<lambda>c. [])
        (''category'' :=
           [[(''_id'', VOid 5), (''name'', VStr ''Exhaust''), (''slug'', VStr ''exhaust'')]],
         ''product'' :=
           [[(''_id'', VOid 1), (''title'', VStr ''Coilover Kit''), (''price'', VFloat ''899.0''),
             (''category'', VStr ''suspension'')],
            [(''_id'', VOid 2), (''title'', VStr ''Brake Pads''), (''price'', VFloat ''59.9''),
             (''category'', VStr ''braking''), (''in_stock'', VBool False)]],
         ''user'' :=
           [[(''_id'', VOid 3), (''name'', VStr ''Ann''), (''email'', VStr ''ann@example.com''),
             (''password_hash'',
              VStr ''ba7816bf8f01cfea414140de5dae2223b00361a396177a9cb410ff61f20015ad''),
             (''is_active'', VBool True)],
            [(''_id'', VOid 4), (''name'', VStr ''Bob''), (''email'', VStr ''bob@example.com''),
             (''password_hash'', VStr ''unset''), (''is_active'', VBool True)]]),
      next_oid = 6\<rparr>"

definition shop_world :: world where
  "shop_world = \<lparr>database = Imported (Some shop_store), now = clock0, reads = 0\<rparr>"

definition twin_store :: store where
  "twin_store =
     \<lparr>colls = (\<lambda>c. [])
        (''user'' :=
           [[(''_id'', VOid 1), (''name'', VStr ''Ann, older''), (''email'', VStr ''ann@example.com''),
             (''password_hash'', VStr ''unset''), (''is_active'', VBool True)],
            [(''_id'', VOid 2), (''name'', VStr ''Ann''), (''email'', VStr ''ann@example.com''),
             (''password_hash'',
              VStr ''ba7816bf8f01cfea414140de5dae2223b00361a396177a9cb410ff61f20015ad''),
             (''is_active'', VBool True)]]),
      next_oid = 3\<rparr>"

definition twin_world :: world where
  "twin_world = \<lparr>database = Imported (Some twin_store), now = clock0, reads = 0\<rparr>"

definition ann :: SignUpRequest where
  "ann = \<lparr>email = ''ann@example.com'', password = [97, 98, 99], name = ''Ann''\<rparr>"

definition ann_again :: SignUpRequest where
  "ann_again = \<lparr>email = ''ann@example.com'', password = [111, 116, 104, 101, 114], name = ''Anna''\<rparr>"

definition ann_surrogate :: SignUpRequest where
  "ann_surrogate = \<lparr>email = ''ann@example.com'', password = [0xD800], name = ''Ann''\<rparr>"

definition ann_login :: LoginRequest where
  "ann_login = \<lparr>email = ''ann@example.com'', password = [97, 98, 99]\<rparr>"

definition bob_login :: LoginRequest where
  "bob_login = \<lparr>email = ''bob@example.com'', password = [97, 98, 99]\<rparr>"

definition eve_login :: LoginRequest where
  "eve_login = \<lparr>email = ''eve@example.com'', password = [97, 98, 99]\<rparr>"

definition ann_login_surrogate :: LoginRequest where
  "ann_login_surrogate = \<lparr>email = ''ann@example.com'', password = [0xD800]\<rparr>"

definition eve_login_surrogate :: LoginRequest where
  "eve_login_surrogate = \<lparr>email = ''eve@example.com'', password = [0xD800]\<rparr>"

section \<open>Lemmas about the store and the helpers\<close>

lemma find_docs_all: "find_docs [] ds = ds"
  by (simp add: find_docs_def matches_def)

lemma colls_insert_one:
  "colls (snd (insert_one c d s)) c' =
     (if c' = c then colls s c @ [if map_of d ''_id'' = None then (''_id'', VOid (next_oid s)) # d else d]
      else colls s c')"
  by (simp add: insert_one_def Let_def)

lemma next_oid_insert_one: "next_oid (snd (insert_one c d s)) = Suc (next_oid s)"
  by (simp add: insert_one_def Let_def)

lemma insert_seed_other:
  "c \<noteq> ''category'' \<Longrightarrow> colls (fst (insert_seed clk xs (s, r))) c = colls s c"
  by (induction xs arbitrary: s r) (simp_all add: colls_insert_one)

lemma insert_seed_length:
  "length (colls (fst (insert_seed clk xs (s, r))) ''category'') = length (colls s ''category'') + length xs"
  by (induction xs arbitrary: s r) (simp_all add: colls_insert_one)

lemma funpow_fixed: "f x = x \<Longrightarrow> (f ^^ n) x = x"
  by (induction n) simp_all

lemma find_one_None: "find_one q ds = None \<longleftrightarrow> find_docs q ds = []"
  by (simp add: find_one_def split: list.splits)

lemma find_one_Some: "find_one q ds = Some u \<Longrightarrow> matches q u \<and> u \<in> set ds"
proof -
  assume "find_one q ds = Some u"
  then obtain us where "find_docs q ds = u # us"
    by (auto simp: find_one_def split: list.splits)
  then have "u \<in> set (filter (matches q) ds)" by (simp add: find_docs_def)
  then show ?thesis by simp
qed

lemma matches_email: "matches [(''email'', v)] u \<Longrightarrow> u \<noteq> []"
  by (auto simp: matches_def)

lemma set_slice_to: "set (slice_to n xs) \<subseteq> set xs"
  by (simp add: slice_to_def set_take_subset)

lemma length_slice_to: "length (slice_to n xs) \<le> length xs"
  by (simp add: slice_to_def min_def)

lemma length_slice_to_limit: "0 \<le> n \<Longrightarrow> int (length (slice_to n xs)) \<le> n"
  by (simp add: slice_to_def)

lemma set_limit_cursor: "set (limit_cursor n xs) \<subseteq> set xs"
  by (simp add: limit_cursor_def set_take_subset)

lemma length_limit_cursor: "length (limit_cursor n xs) \<le> length xs"
  by (simp add: limit_cursor_def)

lemma length_limit_cursor_limit: "0 < n \<Longrightarrow> int (length (limit_cursor n xs)) \<le> n"
  by (simp add: limit_cursor_def)

lemma category_product_out: "dict_get (product_out d) ''category'' = dict_get d ''category''"
  by (simp add: product_out_def dict_get_def dict_get_default_def)

lemma category_product_out_demo:
  "dict_get (product_out_demo d) ''category'' = dict_get d ''category''"
  by (simp add: product_out_demo_def dict_get_def dict_get_default_def)

lemma dict_get_Some: "dict_get d k = VStr x \<longleftrightarrow> map_of d k = Some (VStr x)"
  by (simp add: dict_get_def dict_get_default_def split: option.splits)

lemma find_docs_category: "find_docs [(''category'', VStr cs)] ds = matching (Some cs) ds"
  unfolding find_docs_def matching_def
  by (auto intro!: filter_cong simp: matches_def dict_get_Some)

lemma hex_nat_numeral:
  "hex_nat (numeral k) n = hex_nat (pred_numeral k) (n div 16) @ [hex_digit n]"
proof -
  have "numeral k = Suc (pred_numeral k)" by (rule numeral_eq_Suc)
  then show ?thesis by (simp only: hex_nat.simps)
qed

lemma length_hex32: "length (hex32 x) = 8"
  by (simp add: hex32_def)

lemma length_hexdigest: "length (hexdigest v) = 64"
  by (simp add: hexdigest_def length_hex32 split: prod.split)

lemma hex_digit_range: "hex_digit n \<in> set ''0123456789abcdef''"
  unfolding hex_digit_def by (rule nth_mem) simp

lemma set_hex32: "set (hex32 x) \<subseteq> set ''0123456789abcdef''"
  unfolding hex32_def using hex_digit_range by (auto simp only: set_map)

lemma set_hexdigest: "set (hexdigest v) \<subseteq> set ''0123456789abcdef''"
proof -
  obtain a b c d e f g h where v: "v = (a, b, c, d, e, f, g, h)"
    by (cases v) auto
  have "set (concat (map hex32 xs)) = (\<Union>x\<in>set xs. set (hex32 x))" for xs
    by simp
  moreover have "(\<Union>x\<in>set xs. set (hex32 x)) \<subseteq> set ''0123456789abcdef''" for xs
    using set_hex32 by (rule UN_least)
  ultimately show ?thesis by (simp only: v hexdigest_def prod.case)
qed

lemma hash_password_Inr:
  assumes "hash_password pw = Inr h"
  shows "length h = 64 \<and> set h \<subseteq> set ''0123456789abcdef''"
proof -
  from assms obtain bs where "h = hexdigest (sha256 bs)"
    by (auto simp: hash_password_def split: sum.splits)
  then show ?thesis
    using length_hexdigest [of "sha256 bs"] set_hexdigest [of "sha256 bs"] by blast
qed

text \<open>
  The digests of \<^verbatim>\<open>abc\<close>, the one-block example message of FIPS 180-4, and of the
  empty password.
\<close>

lemma hash_password_abc:
  "hash_password [97, 98, 99] =
     Inr ''ba7816bf8f01cfea414140de5dae2223b00361a396177a9cb410ff61f20015ad''"
  by code_simp

lemma hash_password_empty:
  "hash_password [] = Inr ''e3b0c44298fc1c149afbf4c8996fb92427ae41e4649b934ca495991b7852b855''"
  by code_simp

lemma hash_password_surrogate: "hash_password [0xD800] = Inl UnicodeEncodeError"
  by (simp add: hash_password_def utf8_def)

lemma encode_replicate: "encode (replicate n 97) = Inr (replicate n 97)"
  by (induction n) (simp_all add: utf8_def)

text \<open>
  Passwords made of the letter \<^verbatim>\<open>a\<close> alone are infinitely many and all have a digest,
  and the digests are finitely many: two distinct passwords have the same digest.
\<close>

lemma digest_collision_exists:
  "\<exists>p q h. p \<noteq> q \<and> hash_password p = Inr h \<and> hash_password q = Inr h"
proof -
  define f where "f n = hexdigest (sha256 (replicate n 97))" for n :: nat
  have "range f \<subseteq> range hexdigest"
    by (auto simp: f_def)
  moreover have "finite (range hexdigest)" by simp
  ultimately have "finite (range f)" by (rule finite_subset)
  then have "\<not> inj f"
    using finite_imageD infinite_UNIV_nat by blast
  then obtain n m where nm: "n \<noteq> m" and eq: "f n = f m"
    by (auto simp: inj_def)
  have "hash_password (replicate k 97) = Inr (f k)" for k
    by (simp add: hash_password_def encode_replicate f_def)
  moreover from nm have "replicate n (97::nat) \<noteq> replicate m 97"
    by (metis length_replicate)
  ultimately show ?thesis using eq by metis
qed

section \<open>Categories: the static fallback\<close>

text \<open>
  C1. When the import of the database module fails, \<^verbatim>\<open>get_categories\<close> returns the
  list of the six fixed category records, named Engine, Braking, Suspension,
  Electronics, LED Lighting and Bodywork, and leaves the world as it was; so it returns
  that same list after any number \<open>n\<close> of earlier calls.
\<close>

theorem get_categories_static:
  assumes "database w = ImportFails"
  shows "get_categories w = (Inr static_categories, w) \<and>
         fst (get_categories (((snd \<circ> get_categories) ^^ n) w)) = Inr static_categories \<and>
         map (\<lambda>c. dict_get c ''name'') static_categories =
           [VStr ''Engine'', VStr ''Braking'', VStr ''Suspension'', VStr ''Electronics'',
            VStr ''LED Lighting'', VStr ''Bodywork'']"
proof -
  have one: "get_categories w = (Inr static_categories, w)"
    using assms by (simp add: get_categories_def)
  then have "(snd \<circ> get_categories) w = w" by simp
  then have "((snd \<circ> get_categories) ^^ n) w = w" by (rule funpow_fixed)
  moreover have "map (\<lambda>c. dict_get c ''name'') static_categories =
           [VStr ''Engine'', VStr ''Braking'', VStr ''Suspension'', VStr ''Electronics'',
            VStr ''LED Lighting'', VStr ''Bodywork'']"
    by (simp add: static_categories_def dict_get_def dict_get_default_def)
  ultimately show ?thesis using one by simp
qed

theorem get_categories_static_witness:
  "database demo_world = ImportFails \<and>
   fst (get_categories (((snd \<circ> get_categories) ^^ 3) demo_world)) = Inr static_categories"
  using get_categories_static [of demo_world 3]
  by (simp add: demo_world_def)

section \<open>Categories: seeding\<close>

text \<open>
  C2. With a connected database whose category collection is empty, \<^verbatim>\<open>get_categories\<close>
  inserts exactly the six seed records, each with a fresh identifier and with
  \<^verbatim>\<open>created_at\<close> and \<^verbatim>\<open>updated_at\<close> readings of the clock, touches no other
  collection, and returns the six records projected to name, slug, description and
  icon; a second call in the resulting world returns the same six records and changes
  nothing.
\<close>

theorem get_categories_seeds_once:
  assumes "database w = Imported (Some s)" and "colls s ''category'' = []"
  shows "case get_categories w of (r1, w1) \<Rightarrow>
           r1 = Inr seed \<and>
           (case database w1 of
              Imported (Some s1) \<Rightarrow>
                colls s1 ''category'' =
                  map (\<lambda>i. (''_id'', VOid (next_oid s + i)) # seed ! i @
                             [(''created_at'', VDatetime (now w (reads w + 2 * i))),
                              (''updated_at'', VDatetime (now w (reads w + 2 * i + 1)))])
                      [0, 1, 2, 3, 4, 5] \<and>
                (\<forall>c. c \<noteq> ''category'' \<longrightarrow> colls s1 c = colls s c)
            | _ \<Rightarrow> False) \<and>
           get_categories w1 = (r1, w1)"
  using assms
  by (simp add: get_categories_def find_docs_all seed_def insert_one_def Let_def category_out_def
        dict_get_def dict_get_default_def eval_nat_numeral)

theorem get_categories_seeds_once_witness:
  "database empty_world = Imported (Some empty_store) \<and>
   colls empty_store ''category'' = [] \<and>
   fst (get_categories empty_world) = Inr seed \<and>
   get_categories (snd (get_categories empty_world)) =
     (Inr seed, snd (get_categories empty_world))"
proof -
  have h1: "database empty_world = Imported (Some empty_store)"
    by (simp add: empty_world_def)
  have h2: "colls empty_store ''category'' = []"
    by (simp add: empty_store_def)
  show ?thesis
    using get_categories_seeds_once [OF h1 h2] h1 h2
    by (auto split: prod.splits)
qed

text \<open>
  C10. With a connected database, the category collection is not empty after a call of
  \<^verbatim>\<open>get_categories\<close>, and a call that finds the collection non-empty changes nothing.
\<close>

theorem get_categories_nonempty:
  assumes "database w = Imported (Some s)"
  shows "case get_categories w of (r, w1) \<Rightarrow>
           (case database w1 of
              Imported (Some s1) \<Rightarrow>
                colls s1 ''category'' \<noteq> [] \<and> (colls s ''category'' \<noteq> [] \<longrightarrow> w1 = w)
            | _ \<Rightarrow> False)"
proof (cases "colls s ''category'' = []")
  case True
  obtain s' r' where sd: "insert_seed (now w) seed (s, reads w) = (s', r')"
    by (cases "insert_seed (now w) seed (s, reads w)")
  have "length seed = 6" by (simp add: seed_def)
  then have "length (colls (fst (insert_seed (now w) seed (s, reads w))) ''category'') = 6"
    by (simp only: insert_seed_length True list.size)
  with sd have "colls s' ''category'' \<noteq> []" by auto
  with True sd assms show ?thesis
    by (simp add: get_categories_def find_docs_all)
next
  case False
  with assms show ?thesis
    by (simp add: get_categories_def find_docs_all)
qed

theorem get_categories_nonempty_witness:
  "database shop_world = Imported (Some shop_store) \<and>
   colls shop_store ''category'' \<noteq> [] \<and>
   snd (get_categories shop_world) = shop_world"
proof -
  have h: "database shop_world = Imported (Some shop_store)"
    by (simp add: shop_world_def)
  have ne: "colls shop_store ''category'' \<noteq> []"
    by (simp add: shop_store_def)
  show ?thesis
    using get_categories_nonempty [OF h] h ne
    by (auto split: prod.splits db_module.splits option.splits)
qed

section \<open>Sign-up and login\<close>

text \<open>
  C7. When the import of the database module fails, \<^verbatim>\<open>signup\<close> and \<^verbatim>\<open>login\<close> return
  their demo acknowledgement for every request and leave the world as it was.
\<close>

theorem demo_auth_accepts:
  assumes "database w = ImportFails"
  shows "signup p w =
           (Inr [(''ok'', Atom (VBool True)), (''message'', Atom (VStr ''Signed up (demo mode)'')),
                 (''user'', Obj [(''name'', VStr (name p)), (''email'', VStr (email p))])], w) \<and>
         login q w =
           (Inr [(''ok'', Atom (VBool True)), (''message'', Atom (VStr ''Logged in (demo mode)'')),
                 (''email'', Atom (VStr (email q)))], w)"
  using assms by (simp add: signup_def login_def)

theorem demo_auth_accepts_witness:
  "database demo_world = ImportFails \<and>
   snd (signup ann demo_world) = demo_world \<and>
   fst (login ann_login demo_world) =
     Inr [(''ok'', Atom (VBool True)), (''message'', Atom (VStr ''Logged in (demo mode)'')),
          (''email'', Atom (VStr ''ann@example.com''))]"
  using demo_auth_accepts [of demo_world ann ann_login]
  by (simp add: demo_world_def ann_login_def)

text \<open>
  C5, as the program has it. With a connected database, \<^verbatim>\<open>login\<close> raises the 401 error
  "Invalid credentials" when \<^verbatim>\<open>find_one\<close> finds no user with the email, whatever the
  password is. When it finds one (the first record with the email) and the password
  has a digest, it raises the same error if that record's stored \<^verbatim>\<open>password_hash\<close>
  differs from the digest, and otherwise returns that record's identifier and stored
  name. The world is unchanged in each case.
\<close>

theorem login_checks_credentials:
  assumes "database w = Imported (Some s)"
  shows "(find_one [(''email'', VStr (email p))] (colls s ''user'') = None \<longrightarrow>
            login p w = (Inl (HTTPException 401 ''Invalid credentials''), w)) \<and>
         (\<forall>u h. find_one [(''email'', VStr (email p))] (colls s ''user'') = Some u \<and>
                hash_password (password p) = Inr h \<longrightarrow>
            (dict_get u ''password_hash'' \<noteq> VStr h \<longrightarrow>
               login p w = (Inl (HTTPException 401 ''Invalid credentials''), w)) \<and>
            (dict_get u ''password_hash'' = VStr h \<longrightarrow>
               login p w =
                 (Inr [(''ok'', Atom (VBool True)),
                       (''user_id'', Atom (VStr (str (dict_get u ''_id'')))),
                       (''name'', Atom (dict_get u ''name''))], w)))"
proof -
  have "u \<noteq> []" if "find_one [(''email'', VStr (email p))] (colls s ''user'') = Some u" for u
    using find_one_Some [OF that] by (auto dest: matches_email)
  then show ?thesis
    using assms by (auto simp: login_def)
qed

theorem login_checks_credentials_witness:
  "database shop_world = Imported (Some shop_store) \<and>
   login eve_login shop_world = (Inl (HTTPException 401 ''Invalid credentials''), shop_world) \<and>
   login bob_login shop_world = (Inl (HTTPException 401 ''Invalid credentials''), shop_world) \<and>
   login ann_login shop_world =
     (Inr [(''ok'', Atom (VBool True)), (''user_id'', Atom (VStr ''000000000000000000000003'')),
           (''name'', Atom (VStr ''Ann''))], shop_world)"
proof -
  have h: "database shop_world = Imported (Some shop_store)"
    by (simp add: shop_world_def)
  have eve: "find_one [(''email'', VStr (email eve_login))] (colls shop_store ''user'') = None"
    by (simp add: find_one_def find_docs_def matches_def shop_store_def eve_login_def)
  have bob: "find_one [(''email'', VStr (email bob_login))] (colls shop_store ''user'') =
      Some [(''_id'', VOid 4), (''name'', VStr ''Bob''), (''email'', VStr ''bob@example.com''),
            (''password_hash'', VStr ''unset''), (''is_active'', VBool True)]"
    by (simp add: find_one_def find_docs_def matches_def shop_store_def bob_login_def)
  have ann: "find_one [(''email'', VStr (email ann_login))] (colls shop_store ''user'') =
      Some [(''_id'', VOid 3), (''name'', VStr ''Ann''), (''email'', VStr ''ann@example.com''),
            (''password_hash'',
             VStr ''ba7816bf8f01cfea414140de5dae2223b00361a396177a9cb410ff61f20015ad''),
            (''is_active'', VBool True)]"
    by (simp add: find_one_def find_docs_def matches_def shop_store_def ann_login_def)
  have pb: "hash_password (password bob_login) =
      Inr ''ba7816bf8f01cfea414140de5dae2223b00361a396177a9cb410ff61f20015ad''"
    by (simp add: bob_login_def hash_password_abc)
  have pa: "hash_password (password ann_login) =
      Inr ''ba7816bf8f01cfea414140de5dae2223b00361a396177a9cb410ff61f20015ad''"
    by (simp add: ann_login_def hash_password_abc)
  have id3: "str (VOid 3) = ''000000000000000000000003''"
    by (simp add: hex_nat_numeral hex_digit_def)
  from login_checks_credentials [OF h, of eve_login] eve
  have 1: "login eve_login shop_world = (Inl (HTTPException 401 ''Invalid credentials''), shop_world)"
    by simp
  from login_checks_credentials [OF h, of bob_login] bob pb
  have 2: "login bob_login shop_world = (Inl (HTTPException 401 ''Invalid credentials''), shop_world)"
    by (simp add: dict_get_def dict_get_default_def)
  from login_checks_credentials [OF h, of ann_login] ann pa id3
  have 3: "login ann_login shop_world =
     (Inr [(''ok'', Atom (VBool True)), (''user_id'', Atom (VStr ''000000000000000000000003'')),
           (''name'', Atom (VStr ''Ann''))], shop_world)"
    by (simp add: dict_get_def dict_get_default_def)
  from h 1 2 3 show ?thesis by simp
qed

text \<open>
  The claim as stated fails twice. In \<open>twin_world\<close> the second record has Ann's email
  and the digest of her password, yet \<^verbatim>\<open>login\<close> raises 401, because \<^verbatim>\<open>find_one\<close>
  returns the first record with the email. And for a registered email and a password
  that is a lone surrogate, \<^verbatim>\<open>login\<close> neither raises 401 nor succeeds.
\<close>

theorem login_checks_credentials_counterexample:
  "login ann_login twin_world = (Inl (HTTPException 401 ''Invalid credentials''), twin_world) \<and>
   map_of (colls twin_store ''user'' ! 1) ''email'' = Some (VStr (email ann_login)) \<and>
   hash_password (password ann_login) =
     Inr ''ba7816bf8f01cfea414140de5dae2223b00361a396177a9cb410ff61f20015ad'' \<and>
   dict_get (colls twin_store ''user'' ! 1) ''password_hash'' =
     VStr ''ba7816bf8f01cfea414140de5dae2223b00361a396177a9cb410ff61f20015ad'' \<and>
   login ann_login_surrogate shop_world = (Inl UnicodeEncodeError, shop_world)"
  by (simp add: login_def twin_world_def twin_store_def shop_world_def shop_store_def
      ann_login_def ann_login_surrogate_def find_one_def find_docs_def matches_def
      dict_get_def dict_get_default_def hash_password_abc hash_password_surrogate)

text \<open>
  C9. The two failures of \<^verbatim>\<open>login\<close> are not always the same response. With the
  password \<^verbatim>\<open>"\ud800"\<close>, a request for an email that is not registered raises the 401
  error "Invalid credentials", and a request for a registered email raises
  \<^verbatim>\<open>UnicodeEncodeError\<close>: the response tells whether the email is registered.
\<close>

theorem login_failure_differs:
  "login eve_login_surrogate shop_world =
     (Inl (HTTPException 401 ''Invalid credentials''), shop_world) \<and>
   login ann_login_surrogate shop_world = (Inl UnicodeEncodeError, shop_world)"
  by (simp add: login_def shop_world_def shop_store_def eve_login_surrogate_def
      ann_login_surrogate_def find_one_def find_docs_def matches_def hash_password_surrogate)

text \<open>
  C4, as the program has it. With a connected database in which no user has the email,
  a sign-up whose password has a digest succeeds, returns the new identifier and
  appends exactly one user record; a second sign-up with the same email, in the
  resulting world and with any password, raises the 400 error "Email already
  registered" and leaves the world, and so the user collection, unchanged.
\<close>

theorem signup_twice:
  assumes "database w = Imported (Some s)"
    and "find_one [(''email'', VStr (email p))] (colls s ''user'') = None"
    and "email p' = email p"
    and "hash_password (password p) = Inr h"
  shows "case signup p w of (r1, w1) \<Rightarrow>
           r1 = Inr [(''ok'', Atom (VBool True)), (''user_id'', Atom (VStr (str (VOid (next_oid s)))))] \<and>
           (case database w1 of
              Imported (Some s1) \<Rightarrow>
                colls s1 ''user'' = colls s ''user'' @
                  [[(''_id'', VOid (next_oid s)), (''name'', VStr (name p)), (''email'', VStr (email p)),
                    (''password_hash'', VStr h),
                    (''is_active'', VBool True),
                    (''created_at'', VDatetime (now w (reads w))),
                    (''updated_at'', VDatetime (now w (Suc (reads w))))]]
            | _ \<Rightarrow> False) \<and>
           signup p' w1 = (Inl (HTTPException 400 ''Email already registered''), w1)"
proof -
  have "find_docs [(''email'', VStr (email p))] (colls s ''user'') = []"
    using assms(2) by (simp add: find_one_None)
  then show ?thesis
    using assms by (simp add: signup_def insert_one_def Let_def dict_get_def dict_get_default_def
        find_one_def find_docs_def matches_def)
qed

theorem signup_twice_witness:
  "database empty_world = Imported (Some empty_store) \<and>
   find_one [(''email'', VStr (email ann))] (colls empty_store ''user'') = None \<and>
   email ann_again = email ann \<and>
   hash_password (password ann) =
     Inr ''ba7816bf8f01cfea414140de5dae2223b00361a396177a9cb410ff61f20015ad'' \<and>
   fst (signup ann empty_world) =
     Inr [(''ok'', Atom (VBool True)), (''user_id'', Atom (VStr ''000000000000000000000001''))] \<and>
   signup ann_again (snd (signup ann empty_world)) =
     (Inl (HTTPException 400 ''Email already registered''), snd (signup ann empty_world))"
proof -
  have h1: "database empty_world = Imported (Some empty_store)"
    by (simp add: empty_world_def)
  have h2: "find_one [(''email'', VStr (email ann))] (colls empty_store ''user'') = None"
    by (simp add: find_one_def find_docs_def empty_store_def)
  have h3: "email ann_again = email ann"
    by (simp add: ann_def ann_again_def)
  have h4: "hash_password (password ann) =
      Inr ''ba7816bf8f01cfea414140de5dae2223b00361a396177a9cb410ff61f20015ad''"
    by (simp add: ann_def hash_password_abc)
  have id1: "str (VOid (next_oid empty_store)) = ''000000000000000000000001''"
    by (simp add: empty_store_def hex_nat_numeral hex_digit_def)
  show ?thesis
    using signup_twice [OF h1 h2 h3 h4] h1 h2 h3 h4 id1
    by (auto split: prod.splits)
qed

text \<open>
  The claim as stated fails for a password that is a lone surrogate: no user has the
  email, and the first sign-up raises \<^verbatim>\<open>UnicodeEncodeError\<close> and inserts nothing.
\<close>

theorem signup_twice_counterexample:
  "find_one [(''email'', VStr (email ann_surrogate))] (colls empty_store ''user'') = None \<and>
   signup ann_surrogate empty_world = (Inl UnicodeEncodeError, empty_world)"
  by (simp add: signup_def empty_world_def empty_store_def ann_surrogate_def find_one_def
      find_docs_def hash_password_surrogate)

section \<open>Products\<close>

text \<open>
  C8. With a connected database, every record that \<^verbatim>\<open>list_products\<close> returns is a
  stored product projected to the public shape: the keys id, title, description,
  price, category, in_stock and image_url, in this order, where id is the string
  conversion of the stored \<^verbatim>\<open>_id\<close>, in_stock is true when the stored record has no
  \<^verbatim>\<open>in_stock\<close> field and the stored value otherwise, and the other entries are the
  stored fields.
\<close>

theorem list_products_projection:
  assumes "database w = Imported (Some s)"
  shows "(\<exists>ds. list_products c l w = Inr (map product_out ds) \<and>
               set ds \<subseteq> set (colls s ''product'')) \<and>
         map fst (product_out d) =
           [''id'', ''title'', ''description'', ''price'', ''category'', ''in_stock'', ''image_url''] \<and>
         dict_get (product_out d) ''id'' = VStr (str (dict_get d ''_id'')) \<and>
         dict_get (product_out d) ''title'' = dict_get d ''title'' \<and>
         dict_get (product_out d) ''description'' = dict_get d ''description'' \<and>
         dict_get (product_out d) ''price'' = dict_get d ''price'' \<and>
         dict_get (product_out d) ''category'' = dict_get d ''category'' \<and>
         dict_get (product_out d) ''image_url'' = dict_get d ''image_url'' \<and>
         (map_of d ''in_stock'' = None \<longrightarrow> dict_get (product_out d) ''in_stock'' = VBool True) \<and>
         (\<forall>v. map_of d ''in_stock'' = Some v \<longrightarrow> dict_get (product_out d) ''in_stock'' = v)"
proof -
  define q where "q = (case c of None \<Rightarrow> []
    | Some cs \<Rightarrow> if cs \<noteq> [] then [(''category'', VStr cs)] else [])"
  have "set (limit_cursor l (find_docs q (colls s ''product''))) \<subseteq> set (colls s ''product'')"
    using set_limit_cursor [of l "find_docs q (colls s ''product'')"]
    by (auto simp: find_docs_def)
  moreover have "list_products c l w =
      Inr (map product_out (limit_cursor l (find_docs q (colls s ''product''))))"
    using assms by (simp add: list_products_def Let_def q_def)
  ultimately have "\<exists>ds. list_products c l w = Inr (map product_out ds) \<and>
               set ds \<subseteq> set (colls s ''product'')"
    by blast
  moreover have "map fst (product_out d) =
           [''id'', ''title'', ''description'', ''price'', ''category'', ''in_stock'', ''image_url'']"
    by (simp add: product_out_def)
  moreover have "dict_get (product_out d) ''id'' = VStr (str (dict_get d ''_id''))"
    and "dict_get (product_out d) ''title'' = dict_get d ''title''"
    and "dict_get (product_out d) ''description'' = dict_get d ''description''"
    and "dict_get (product_out d) ''price'' = dict_get d ''price''"
    and "dict_get (product_out d) ''image_url'' = dict_get d ''image_url''"
    by (simp_all add: product_out_def dict_get_def dict_get_default_def)
  moreover have "map_of d ''in_stock'' = None \<longrightarrow> dict_get (product_out d) ''in_stock'' = VBool True"
    and "\<forall>v. map_of d ''in_stock'' = Some v \<longrightarrow> dict_get (product_out d) ''in_stock'' = v"
    by (simp_all add: product_out_def dict_get_def dict_get_default_def)
  ultimately show ?thesis
    using category_product_out [of d] by blast
qed

theorem list_products_projection_witness:
  "database shop_world = Imported (Some shop_store) \<and>
   map_of (colls shop_store ''product'' ! 0) ''in_stock'' = None \<and>
   dict_get (product_out (colls shop_store ''product'' ! 0)) ''in_stock'' = VBool True \<and>
   dict_get (product_out (colls shop_store ''product'' ! 0)) ''id'' =
     VStr (str (dict_get (colls shop_store ''product'' ! 0) ''_id'')) \<and>
   list_products None 12 shop_world =
     Inr [[(''id'', VStr ''000000000000000000000001''), (''title'', VStr ''Coilover Kit''),
           (''description'', VNone), (''price'', VFloat ''899.0''),
           (''category'', VStr ''suspension''), (''in_stock'', VBool True), (''image_url'', VNone)],
          [(''id'', VStr ''000000000000000000000002''), (''title'', VStr ''Brake Pads''),
           (''description'', VNone), (''price'', VFloat ''59.9''),
           (''category'', VStr ''braking''), (''in_stock'', VBool False), (''image_url'', VNone)]]"
proof -
  have h: "database shop_world = Imported (Some shop_store)"
    by (simp add: shop_world_def)
  have n: "map_of (colls shop_store ''product'' ! 0) ''in_stock'' = None"
    by (simp add: shop_store_def)
  have l: "list_products None 12 shop_world =
     Inr [[(''id'', VStr ''000000000000000000000001''), (''title'', VStr ''Coilover Kit''),
           (''description'', VNone), (''price'', VFloat ''899.0''),
           (''category'', VStr ''suspension''), (''in_stock'', VBool True), (''image_url'', VNone)],
          [(''id'', VStr ''000000000000000000000002''), (''title'', VStr ''Brake Pads''),
           (''description'', VNone), (''price'', VFloat ''59.9''),
           (''category'', VStr ''braking''), (''in_stock'', VBool False), (''image_url'', VNone)]]"
    by (simp add: list_products_def shop_world_def shop_store_def limit_cursor_def find_docs_def
        matches_def product_out_def dict_get_def dict_get_default_def hex_nat_numeral
        hex_digit_def)
  from list_products_projection [OF h, of None 12 "colls shop_store ''product'' ! 0"] h n l
  show ?thesis by simp
qed

text \<open>
  C3, as the program has it. For every non-empty category \<open>cs\<close>, \<^verbatim>\<open>list_products\<close>
  returns only records whose category is \<open>cs\<close>, in demo mode and with a database.
  Unless the category is the empty string, it never returns more records than match.
  It returns at most \<open>limit\<close> records when \<open>limit\<close> is positive, and in demo mode
  also when \<open>limit\<close> is zero. (An empty category applies no filter; in demo mode a
  negative limit drops records from the end of the list, and with a database a limit
  of zero is no limit.)
\<close>

theorem list_products_filter_limit:
  assumes "list_products c l w = Inr rs"
  shows "(\<forall>cs. c = Some cs \<and> cs \<noteq> [] \<longrightarrow> (\<forall>r\<in>set rs. dict_get r ''category'' = VStr cs)) \<and>
         (c \<noteq> Some [] \<longrightarrow>
            (database w = ImportFails \<longrightarrow> length rs \<le> length (matching c demo)) \<and>
            (\<forall>s. database w = Imported (Some s) \<longrightarrow>
                 length rs \<le> length (matching c (colls s ''product'')))) \<and>
         (0 < l \<longrightarrow> int (length rs) \<le> l) \<and>
         (database w = ImportFails \<and> 0 \<le> l \<longrightarrow> int (length rs) \<le> l)"
proof (cases "database w")
  case ImportFails
  define demo' where "demo' = (case c of None \<Rightarrow> demo
      | Some cs \<Rightarrow> if cs \<noteq> [] then filter (\<lambda>d. dict_get d ''category'' = VStr cs) demo else demo)"
  have rs: "rs = map product_out_demo (slice_to l demo')"
    using assms ImportFails by (simp add: list_products_def demo'_def)
  have cat: "\<forall>r\<in>set rs. dict_get r ''category'' = VStr cs" if "c = Some cs" "cs \<noteq> []" for cs
  proof
    fix r assume "r \<in> set rs"
    then obtain d where d: "d \<in> set (slice_to l demo')" and r: "r = product_out_demo d"
      by (auto simp: rs)
    from d set_slice_to [of l demo'] have "d \<in> set demo'" by blast
    with that have "dict_get d ''category'' = VStr cs" by (simp add: demo'_def)
    with r show "dict_get r ''category'' = VStr cs" by (simp add: category_product_out_demo)
  qed
  have m: "demo' = matching c demo" if "c \<noteq> Some []"
    using that by (cases c) (simp_all add: demo'_def matching_def)
  have len: "length rs \<le> length demo'"
    by (simp add: rs length_slice_to)
  have lim: "int (length rs) \<le> l" if "0 \<le> l"
    using length_slice_to_limit [OF that, of demo'] by (simp add: rs)
  from cat m len lim ImportFails show ?thesis by auto
next
  case (Imported o_s)
  show ?thesis
  proof (cases o_s)
    case None
    with assms Imported show ?thesis by (simp add: list_products_def)
  next
    case (Some s)
    define q where "q = (case c of None \<Rightarrow> []
      | Some cs \<Rightarrow> if cs \<noteq> [] then [(''category'', VStr cs)] else [])"
    have rs: "rs = map product_out (limit_cursor l (find_docs q (colls s ''product'')))"
      using assms Imported Some by (simp add: list_products_def q_def Let_def)
    have cat: "\<forall>r\<in>set rs. dict_get r ''category'' = VStr cs" if "c = Some cs" "cs \<noteq> []" for cs
    proof
      fix r assume "r \<in> set rs"
      then obtain d where d: "d \<in> set (limit_cursor l (find_docs q (colls s ''product'')))"
        and r: "r = product_out d"
        by (auto simp: rs)
      from d set_limit_cursor [of l "find_docs q (colls s ''product'')"]
      have "d \<in> set (find_docs q (colls s ''product''))" by blast
      with that have "d \<in> set (matching (Some cs) (colls s ''product''))"
        by (simp add: q_def find_docs_category)
      then have "dict_get d ''category'' = VStr cs" by (simp add: matching_def)
      with r show "dict_get r ''category'' = VStr cs" by (simp add: category_product_out)
    qed
    have m: "find_docs q (colls s ''product'') = matching c (colls s ''product'')" if "c \<noteq> Some []"
      using that by (cases c) (simp_all add: q_def find_docs_category find_docs_all, simp add: matching_def)
    have len: "length rs \<le> length (find_docs q (colls s ''product''))"
      by (simp add: rs length_limit_cursor)
    have lim: "int (length rs) \<le> l" if "0 < l"
      using length_limit_cursor_limit [OF that, of "find_docs q (colls s ''product'')"] by (simp add: rs)
    from cat m len lim Imported Some show ?thesis by auto
  qed
qed

theorem list_products_filter_limit_witness:
  "list_products (Some ''engine'') 1 demo_world = Inr [product_out_demo (demo ! 0)] \<and>
   dict_get (product_out_demo (demo ! 0)) ''category'' = VStr ''engine'' \<and>
   length [product_out_demo (demo ! 0)] \<le> length (matching (Some ''engine'') demo) \<and>
   list_products (Some ''braking'') 1 shop_world =
     Inr [product_out (colls shop_store ''product'' ! 1)] \<and>
   dict_get (product_out (colls shop_store ''product'' ! 1)) ''category'' = VStr ''braking'' \<and>
   length [product_out (colls shop_store ''product'' ! 1)] \<le>
     length (matching (Some ''braking'') (colls shop_store ''product''))"
proof -
  have d: "list_products (Some ''engine'') 1 demo_world = Inr [product_out_demo (demo ! 0)]"
    by (simp add: list_products_def demo_world_def demo_def slice_to_def dict_get_def
        dict_get_default_def)
  have s: "list_products (Some ''braking'') 1 shop_world =
     Inr [product_out (colls shop_store ''product'' ! 1)]"
    by (simp add: list_products_def shop_world_def shop_store_def limit_cursor_def find_docs_def
        matches_def)
  have hd: "database demo_world = ImportFails" by (simp add: demo_world_def)
  have hs: "database shop_world = Imported (Some shop_store)" by (simp add: shop_world_def)
  from list_products_filter_limit [OF d] list_products_filter_limit [OF s] d s hd hs
  show ?thesis by simp
qed

theorem list_products_counterexample:
  "list_products (Some []) 12 demo_world = Inr (map product_out_demo demo) \<and>
   dict_get (product_out_demo (demo ! 0)) ''category'' \<noteq> VStr [] \<and>
   list_products None (- 1) demo_world = Inr [product_out_demo (demo ! 0)] \<and>
   \<not> int (length [product_out_demo (demo ! 0)]) \<le> - 1 \<and>
   list_products None 0 shop_world = Inr (map product_out (colls shop_store ''product'')) \<and>
   \<not> int (length (map product_out (colls shop_store ''product''))) \<le> 0"
  by (simp add: list_products_def demo_world_def shop_world_def shop_store_def demo_def
      slice_to_def limit_cursor_def find_docs_def matches_def product_out_demo_def dict_get_def
      dict_get_default_def)

section \<open>The password hash\<close>

text \<open>
  C6, as the program has it. \<^verbatim>\<open>hash_password\<close> depends on the password alone, so equal
  passwords have equal results. A password that has a UTF-8 encoding has a digest, the
  printed SHA-256 of the encoding, and every digest is a string of 64 lower-case
  hexadecimal digits; the digests of \<^verbatim>\<open>abc\<close> and of the empty password are the two
  different strings below. (A password with a lone surrogate has no digest, and
  \<open>digest_collision_exists\<close> shows that distinct passwords need not have distinct
  digests.)
\<close>

theorem hash_password_deterministic:
  "(p = q \<longrightarrow> hash_password p = hash_password q) \<and>
   (\<forall>bs. encode p = Inr bs \<longrightarrow> hash_password p = Inr (hexdigest (sha256 bs))) \<and>
   (\<forall>h. hash_password p = Inr h \<longrightarrow> length h = 64 \<and> set h \<subseteq> set ''0123456789abcdef'') \<and>
   hash_password [97, 98, 99] =
     Inr ''ba7816bf8f01cfea414140de5dae2223b00361a396177a9cb410ff61f20015ad'' \<and>
   hash_password [] = Inr ''e3b0c44298fc1c149afbf4c8996fb92427ae41e4649b934ca495991b7852b855''"
proof -
  have "\<forall>bs. encode p = Inr bs \<longrightarrow> hash_password p = Inr (hexdigest (sha256 bs))"
    by (simp add: hash_password_def)
  moreover have "\<forall>h. hash_password p = Inr h \<longrightarrow>
      length h = 64 \<and> set h \<subseteq> set ''0123456789abcdef''"
    using hash_password_Inr [of p] by blast
  ultimately show ?thesis
    using hash_password_abc hash_password_empty by blast
qed

theorem hash_password_deterministic_witness:
  "encode [97, 98, 99] = Inr [97, 98, 99] \<and>
   hash_password [97, 98, 99] = Inr (hexdigest (sha256 [97, 98, 99])) \<and>
   length ''ba7816bf8f01cfea414140de5dae2223b00361a396177a9cb410ff61f20015ad'' = 64"
proof -
  have e: "encode [97, 98, 99] = Inr [97, 98, 99]"
    by (simp add: utf8_def)
  from hash_password_deterministic [of "[97, 98, 99]" "[97, 98, 99]"] e
  show ?thesis by simp
qed

text \<open>
  The claim as stated fails at two distinct passwords, each one lone surrogate:
  neither has a digest, and \<^verbatim>\<open>hash_password\<close> ends in the same way for both.
\<close>

theorem hash_password_counterexample:
  "[0xD800] \<noteq> [0xD801 :: nat] \<and>
   hash_password [0xD800] = Inl UnicodeEncodeError \<and>
   hash_password [0xD801] = Inl UnicodeEncodeError"
  by (simp add: hash_password_def utf8_def)

end
